theory Spec2Isabelle
  imports Complex_Main "HOL-Library.Multiset"
begin

text \<open>
  The provider-selection pipeline of \<^verbatim>\<open>celestia-snapshot-finder\<close>: the catalog filter and
  the health prober (\<^verbatim>\<open>internal/provider/manager.go\<close>), the throughput prober
  (\<^verbatim>\<open>internal/speedtest\<close>) and the selection in \<^verbatim>\<open>runRoot\<close> (\<^verbatim>\<open>cmd/root.go\<close>), embedded
  as functions, followed by the properties proved of them.
\<close>

section \<open>Data model\<close>

text \<open>
  The catalog (\<^verbatim>\<open>internal/config/types.go\<close>): a \<^verbatim>\<open>Config\<close> holds providers, a provider
  holds snapshots. Go strings are modelled as \<^typ>\<open>string\<close>, slices that the program
  only reads or rebuilds as lists.
\<close>

record Snapshot =
  Type :: string
  ChainID :: string
  SnapURL :: string
  SnapMetadataURL :: string

record Provider =
  ProvName :: string
  Snapshots :: "Snapshot list"

record Config =
  Providers :: "Provider list"

text \<open>
  The working record of the pipeline (\<^verbatim>\<open>provider.ProviderInfo\<close>). \<^verbatim>\<open>Size\<close> is an
  \<^verbatim>\<open>int64\<close>; every value stored in it comes from \<^verbatim>\<open>strconv.ParseInt\<close>, which checks
  the range, so it is modelled as an \<^typ>\<open>int\<close>. \<^verbatim>\<open>Speed\<close> and \<^verbatim>\<open>DownloadTime\<close> are
  \<^verbatim>\<open>float64\<close>; they are modelled as \<^typ>\<open>real\<close>, that is, the arithmetic is exact and
  rounding is not modelled. The zero value of the struct is \<open>zeroInfo\<close>.
\<close>

record ProviderInfo =
  Name :: string
  URL :: string
  MetadataURL :: string
  Speed :: real
  Size :: int
  DownloadTime :: real

definition zeroInfo :: ProviderInfo where
  "zeroInfo = \<lparr>Name = [], URL = [], MetadataURL = [], Speed = 0, Size = 0, DownloadTime = 0\<rparr>"

section \<open>Catalog filter\<close>

text \<open>
  \<^verbatim>\<open>Manager.FilterProviders\<close> (\<^verbatim>\<open>internal/provider/manager.go\<close>, lines 30-47): two nested
  \<^verbatim>\<open>range\<close> loops that append to \<^verbatim>\<open>result\<close>. The inner loop is \<open>FilterProviders_inner\<close>,
  the outer one \<open>FilterProviders_outer\<close>; both carry \<^verbatim>\<open>result\<close> as an accumulator.
  The function has no client among its arguments: it cannot reach the network.
\<close>

fun FilterProviders_inner ::
  "string \<Rightarrow> string \<Rightarrow> Provider \<Rightarrow> Snapshot list \<Rightarrow> ProviderInfo list \<Rightarrow> ProviderInfo list" where
  "FilterProviders_inner targetType chainID p [] result = result"
| "FilterProviders_inner targetType chainID p (s # ss) result =
     (if Type s = targetType \<and> (chainID = [] \<or> ChainID s = chainID)
      then FilterProviders_inner targetType chainID p ss
             (result @ [zeroInfo\<lparr>Name := ProvName p, URL := SnapURL s,
                                  MetadataURL := SnapMetadataURL s\<rparr>])
      else FilterProviders_inner targetType chainID p ss result)"

fun FilterProviders_outer ::
  "string \<Rightarrow> string \<Rightarrow> Provider list \<Rightarrow> ProviderInfo list \<Rightarrow> ProviderInfo list" where
  "FilterProviders_outer targetType chainID [] result = result"
| "FilterProviders_outer targetType chainID (p # ps) result =
     FilterProviders_outer targetType chainID ps
       (FilterProviders_inner targetType chainID p (Snapshots p) result)"

definition FilterProviders ::
  "Provider list \<Rightarrow> string \<Rightarrow> string \<Rightarrow> string \<Rightarrow> ProviderInfo list" where
  "FilterProviders providers nodeType snapshotType chainID =
     (let targetType = nodeType @ ''-'' @ snapshotType
      in FilterProviders_outer targetType chainID providers [])"

text \<open>
  The catalog read as a flat list of entries, in catalog order: each snapshot paired with
  the name of the provider that offers it. This is the vocabulary of the claims about
  the filter, not a part of the program.
\<close>

definition catalog_entries :: "Provider list \<Rightarrow> (string \<times> Snapshot) list" where
  "catalog_entries providers =
     concat (map (\<lambda>p. map (\<lambda>s. (ProvName p, s)) (Snapshots p)) providers)"

definition entry_matches :: "string \<Rightarrow> string \<Rightarrow> string \<times> Snapshot \<Rightarrow> bool" where
  "entry_matches typeKey chainID e =
     (Type (snd e) = typeKey \<and> (chainID = [] \<or> ChainID (snd e) = chainID))"

definition candidate_of :: "string \<times> Snapshot \<Rightarrow> ProviderInfo" where
  "candidate_of e =
     \<lparr>Name = fst e, URL = SnapURL (snd e), MetadataURL = SnapMetadataURL (snd e),
      Speed = 0, Size = 0, DownloadTime = 0\<rparr>"

section \<open>The HTTP client and the standard library\<close>

text \<open>
  The network is outside the program. A client is a function from the URL requested to
  what the request gave: an error of the client (\<^verbatim>\<open>err != nil\<close>: the connection failed,
  or the client's \<^verbatim>\<open>Timeout\<close> ran out, or anything else the transport reports) or a
  response. The function is arbitrary, so the theorems hold whatever the servers do; that
  it is a function means that one URL is answered in one way during a stage. Every
  request the program issues is appended to a log, so that a theorem can say which
  requests a run made.
\<close>

datatype client_error = ConnectionFailure | TimeoutExceeded | TransportError

record response =
  StatusCode :: int
  Header :: "(string \<times> string) list"

datatype request = HEAD string | GET string | DOWNLOAD string string

definition StatusOK :: int where
  "StatusOK = 200"

text \<open>\<^verbatim>\<open>http.Header.Get\<close>: the value stored under the key, the empty string when there is none.\<close>

definition Header_Get :: "(string \<times> string) list \<Rightarrow> string \<Rightarrow> string" where
  "Header_Get h k = (case map_of h k of None \<Rightarrow> [] | Some v \<Rightarrow> v)"

text \<open>
  \<^verbatim>\<open>strconv.ParseInt(s, 10, 64)\<close> of the Go standard library, after its documentation: an
  optional sign \<^verbatim>\<open>+\<close> or \<^verbatim>\<open>-\<close>, then one or more decimal digits and nothing else; the
  value must fit an \<^verbatim>\<open>int64\<close>. The caller only tests \<^verbatim>\<open>err != nil\<close>, so one error value
  stands for both the syntax and the range error.
\<close>

datatype strconv_error = NumError

definition isDigit :: "char \<Rightarrow> bool" where
  "isDigit c = (c \<in> set ''0123456789'')"

definition digitVal :: "char \<Rightarrow> nat" where
  "digitVal c = of_char c - 48"

definition decimal :: "string \<Rightarrow> nat" where
  "decimal ds = foldl (\<lambda>n c. n * 10 + digitVal c) 0 ds"

definition ParseInt :: "string \<Rightarrow> strconv_error + int" where
  "ParseInt s =
     (if s = [] then Inl NumError
      else
        let neg = (hd s = CHR ''-'');
            ds = (if hd s = CHR ''+'' \<or> hd s = CHR ''-'' then tl s else s)
        in if ds = [] \<or> \<not> list_all isDigit ds then Inl NumError
           else
             let un = decimal ds
             in if \<not> neg \<and> un \<ge> 2 ^ 63 then Inl NumError
                else if neg \<and> un > 2 ^ 63 then Inl NumError
                else Inr (if neg then - int un else int un))"

section \<open>Health prober\<close>

text \<open>
  \<^verbatim>\<open>Manager.isHealthy\<close> (\<^verbatim>\<open>manager.go\<close>, lines 64-106). The Go function writes
  \<^verbatim>\<open>info.Size\<close> through a pointer and returns \<^verbatim>\<open>(bool, error)\<close>; the model returns the
  pair, the record as written, and the log with the \<^verbatim>\<open>HEAD\<close> request added. The debug
  output and the headers that are only printed are left out.
\<close>

datatype health_error = ConnectionFailed client_error | UnexpectedStatusCode int

definition isHealthy ::
  "(string \<Rightarrow> client_error + response) \<Rightarrow> string \<Rightarrow> ProviderInfo \<Rightarrow> request list
     \<Rightarrow> (bool \<times> health_error option) \<times> ProviderInfo \<times> request list" where
  "isHealthy Head url info reqs =
     (case Head url of
        Inl err \<Rightarrow> ((False, Some (ConnectionFailed err)), info, reqs @ [HEAD url])
      | Inr resp \<Rightarrow>
          if StatusCode resp \<noteq> StatusOK
          then ((False, Some (UnexpectedStatusCode (StatusCode resp))), info, reqs @ [HEAD url])
          else
            let contentLength = Header_Get (Header resp) ''Content-Length'';
                info = (if contentLength = [] then info\<lparr>Size := 0\<rparr>
                        else (case ParseInt contentLength of
                                Inl err \<Rightarrow> info\<lparr>Size := 0\<rparr>
                              | Inr sz \<Rightarrow> info\<lparr>Size := sz\<rparr>))
            in ((True, None), info, reqs @ [HEAD url]))"

text \<open>
  \<^verbatim>\<open>Manager.CheckHealth\<close> (lines 49-62): the loop over \<^verbatim>\<open>providers\<close>, with \<^verbatim>\<open>healthy\<close> as
  the accumulator. \<^verbatim>\<open>p\<close> is the loop's copy of the element, so the input slice is not
  written; the copy, with its size set, is what is appended.
\<close>

fun CheckHealth_loop ::
  "(string \<Rightarrow> client_error + response) \<Rightarrow> ProviderInfo list \<Rightarrow> ProviderInfo list
     \<Rightarrow> request list \<Rightarrow> ProviderInfo list \<times> request list" where
  "CheckHealth_loop Head [] healthy reqs = (healthy, reqs)"
| "CheckHealth_loop Head (p # ps) healthy reqs =
     (case isHealthy Head (URL p) p reqs of
        ((ok, err), p', reqs') \<Rightarrow>
          if \<not> ok then CheckHealth_loop Head ps healthy reqs'
          else CheckHealth_loop Head ps (healthy @ [p']) reqs')"

definition CheckHealth ::
  "(string \<Rightarrow> client_error + response) \<Rightarrow> ProviderInfo list \<Rightarrow> request list
     \<Rightarrow> ProviderInfo list \<times> request list" where
  "CheckHealth Head providers reqs = CheckHealth_loop Head providers [] reqs"

text \<open>
  The vocabulary of the claims about the health prober: a probe succeeded when the
  request returned a response (no connection failure, no timeout) whose status is
  \<^verbatim>\<open>http.StatusOK\<close>; the size a response declares is what \<open>isHealthy\<close> stores.
\<close>

definition probe_ok :: "(string \<Rightarrow> client_error + response) \<Rightarrow> ProviderInfo \<Rightarrow> bool" where
  "probe_ok Head p =
     (case Head (URL p) of Inl err \<Rightarrow> False | Inr resp \<Rightarrow> StatusCode resp = StatusOK)"

definition size_header :: "(string \<Rightarrow> client_error + response) \<Rightarrow> ProviderInfo \<Rightarrow> string" where
  "size_header Head p =
     (case Head (URL p) of Inl err \<Rightarrow> [] | Inr resp \<Rightarrow> Header_Get (Header resp) ''Content-Length'')"

definition declared_size :: "string \<Rightarrow> int" where
  "declared_size h = (case ParseInt h of Inl err \<Rightarrow> 0 | Inr n \<Rightarrow> n)"

definition captured :: "(string \<Rightarrow> client_error + response) \<Rightarrow> ProviderInfo \<Rightarrow> ProviderInfo" where
  "captured Head p = p\<lparr>Size := declared_size (size_header Head p)\<rparr>"

section \<open>Throughput prober\<close>

text \<open>
  What one speed test observes of the world, once \<^verbatim>\<open>client.Get\<close> has returned a
  response: \<open>reads\<close> is the sequence of results \<^verbatim>\<open>(n, err)\<close> of the successive calls of
  \<^verbatim>\<open>resp.Body.Read(buffer)\<close> (a body that has nothing more to give returns \<^verbatim>\<open>(0, io.EOF)\<close>),
  and \<open>elapsed k\<close> is the time since \<^verbatim>\<open>start\<close>, in nanoseconds, that the clock shows when
  it is read for the \<open>k\<close>-th time after \<^verbatim>\<open>start\<close> was taken (Go reads the monotonic clock
  here, so the time is a natural number).
\<close>

datatype read_err = NoError | EOF | ReadFailure

record transfer =
  reads :: "(nat \<times> read_err) list"
  elapsed :: "nat \<Rightarrow> nat"

definition testDuration :: nat where
  "testDuration = 10 * 1000000000"

text \<open>\<^verbatim>\<open>time.Duration.Seconds\<close>, without the rounding of \<^verbatim>\<open>float64\<close>.\<close>

definition Seconds :: "nat \<Rightarrow> real" where
  "Seconds d = real d / 1000000000"

text \<open>
  The reading loop of \<^verbatim>\<open>testSpeed\<close> (\<^verbatim>\<open>speedtest.go\<close>, lines 76-86). It returns
  \<^verbatim>\<open>totalBytes\<close> and the number of clock readings made. \<^verbatim>\<open>totalBytes\<close> is an \<^verbatim>\<open>int64\<close>
  that grows by at most the buffer size per read; it is modelled as an \<^typ>\<open>int\<close>. The
  bytes of a read that fails with an error other than \<^verbatim>\<open>io.EOF\<close> are not added: the
  loop breaks before the addition.
\<close>

fun read_loop :: "(nat \<Rightarrow> nat) \<Rightarrow> nat \<Rightarrow> (nat \<times> read_err) list \<Rightarrow> int \<Rightarrow> int \<times> nat" where
  "read_loop clk k [] totalBytes =
     (if clk k < testDuration then (totalBytes + 0, Suc k) else (totalBytes, Suc k))"
| "read_loop clk k ((n, err) # rs) totalBytes =
     (if clk k < testDuration then
        (if err \<noteq> NoError \<and> err \<noteq> EOF then (totalBytes, Suc k)
         else if err = EOF then (totalBytes + int n, Suc k)
         else read_loop clk (Suc k) rs (totalBytes + int n))
      else (totalBytes, Suc k))"

text \<open>
  \<^verbatim>\<open>SpeedTester.testSpeed\<close> (lines 62-94). The result is in megabytes per second: the
  quotient is divided by 1000 twice.
\<close>

definition testSpeed ::
  "(string \<Rightarrow> client_error + transfer) \<Rightarrow> string \<Rightarrow> request list \<Rightarrow> real \<times> request list" where
  "testSpeed Get url reqs =
     (case Get url of
        Inl err \<Rightarrow> (0, reqs @ [GET url])
      | Inr resp \<Rightarrow>
          (case read_loop (elapsed resp) 0 (reads resp) 0 of
             (totalBytes, k) \<Rightarrow>
               let duration = Seconds (elapsed resp k)
               in if duration = 0 then (0, reqs @ [GET url])
                  else (real_of_int totalBytes / duration / 1000 / 1000, reqs @ [GET url])))"

text \<open>
  \<^verbatim>\<open>float64(^uint64(0) >> 1)\<close>: the largest \<^verbatim>\<open>int64\<close>, converted (the conversion to
  \<^verbatim>\<open>float64\<close> rounds it to \<open>2 ^ 63\<close>; the model keeps the integer).
\<close>

definition maxSentinel :: real where
  "maxSentinel = real_of_int ((2 ^ 64 - 1) div 2)"

text \<open>
  \<^verbatim>\<open>SpeedTester.TestProviders\<close> (lines 31-60). \<open>TestProviders_task\<close> is the body of the
  goroutine started for \<^verbatim>\<open>idx\<close>. The goroutines run concurrently; each one reads and
  writes only \<^verbatim>\<open>result[idx]\<close> for its own \<^verbatim>\<open>idx\<close>, and \<^verbatim>\<open>wg.Wait()\<close> returns after all of
  them, so the slice returned is the one that running the bodies one after the other
  gives. The model runs them in the order of the indices; the order of the \<^verbatim>\<open>GET\<close>
  requests in the log is that order and means nothing more. (The copy of this function
  that \<^verbatim>\<open>internal/config/types.go\<close> carries, lines 126-145, is the same without the
  estimate: it writes \<^verbatim>\<open>Speed\<close> only.)
\<close>

definition TestProviders_task ::
  "(string \<Rightarrow> client_error + transfer) \<Rightarrow> nat \<Rightarrow> ProviderInfo list \<times> request list
     \<Rightarrow> ProviderInfo list \<times> request list" where
  "TestProviders_task Get idx st =
     (case st of (result, reqs) \<Rightarrow>
       (case testSpeed Get (URL (result ! idx)) reqs of (speed, reqs) \<Rightarrow>
         let result = result[idx := (result ! idx)\<lparr>Speed := speed\<rparr>];
             result =
               (if Speed (result ! idx) > 0 \<and> Size (result ! idx) > 0
                then let speedInBytes = Speed (result ! idx) * 1000 * 1000
                     in result[idx := (result ! idx)
                          \<lparr>DownloadTime := real_of_int (Size (result ! idx)) / speedInBytes\<rparr>]
                else result[idx := (result ! idx)\<lparr>DownloadTime := maxSentinel\<rparr>])
         in (result, reqs)))"

definition TestProviders ::
  "(string \<Rightarrow> client_error + transfer) \<Rightarrow> ProviderInfo list \<Rightarrow> request list
     \<Rightarrow> ProviderInfo list \<times> request list" where
  "TestProviders Get providers reqs =
     (let result = providers
      in fold (TestProviders_task Get) [0..<length result] (result, reqs))"

text \<open>
  The vocabulary of the claims about the throughput prober: the bytes a probe counted
  and the time it measured, when the connection was opened.
\<close>

definition bytes_read :: "transfer \<Rightarrow> int" where
  "bytes_read t = fst (read_loop (elapsed t) 0 (reads t) 0)"

definition elapsed_seconds :: "transfer \<Rightarrow> real" where
  "elapsed_seconds t = Seconds (elapsed t (snd (read_loop (elapsed t) 0 (reads t) 0)))"

definition measured_rate :: "(string \<Rightarrow> client_error + transfer) \<Rightarrow> string \<Rightarrow> real" where
  "measured_rate Get url = fst (testSpeed Get url [])"

text \<open>
  What the goroutine leaves in a slot, written as one record update: the rate the probe
  of the candidate's URL measured, and the estimated time. \<open>time_from_rate\<close> and
  \<open>time_is_sentinel\<close> are the two cases of the estimate; \<^verbatim>\<open>Speed\<close> is in megabytes per
  second, so the rate in bytes per second is \<open>Speed q * 1000 * 1000\<close>.
  \<open>time_is_sentinel_as_claimed\<close> is the second case in the words of the specification
  (rate 0 or size 0).
\<close>

definition annotated :: "(string \<Rightarrow> client_error + transfer) \<Rightarrow> ProviderInfo \<Rightarrow> ProviderInfo" where
  "annotated Get p =
     p\<lparr>Speed := measured_rate Get (URL p),
       DownloadTime :=
         (if measured_rate Get (URL p) > 0 \<and> Size p > 0
          then real_of_int (Size p) / (measured_rate Get (URL p) * 1000 * 1000)
          else maxSentinel)\<rparr>"

definition time_from_rate :: "ProviderInfo \<Rightarrow> bool" where
  "time_from_rate q =
     (Speed q > 0 \<and> Size q > 0 \<and>
      DownloadTime q = real_of_int (Size q) / (Speed q * 1000 * 1000))"

definition time_is_sentinel :: "ProviderInfo \<Rightarrow> bool" where
  "time_is_sentinel q = ((Speed q = 0 \<or> Size q \<le> 0) \<and> DownloadTime q = maxSentinel)"

definition time_is_sentinel_as_claimed :: "ProviderInfo \<Rightarrow> bool" where
  "time_is_sentinel_as_claimed q = ((Speed q = 0 \<or> Size q = 0) \<and> DownloadTime q = maxSentinel)"

subsection \<open>The same function on Go's memory\<close>

text \<open>
  A Go slice is a window on a backing array, and two slices may share one. To say that
  \<^verbatim>\<open>TestProviders\<close> leaves its argument alone, the memory is modelled: the arrays
  allocated so far, by address, and a slice as the address of its array, the offset of
  its first element and its length (the capacity plays no part: nothing is appended). \<^verbatim>\<open>make\<close> allocates a new array of zero values,
  \<^verbatim>\<open>copy\<close> copies element by element, and an assignment to a field of \<^verbatim>\<open>result[idx]\<close>
  writes the array that \<^verbatim>\<open>result\<close> points to.
\<close>

type_synonym memory = "ProviderInfo list list"

record slice =
  arr :: nat
  off :: nat
  len :: nat

definition valid_slice :: "memory \<Rightarrow> slice \<Rightarrow> bool" where
  "valid_slice m s = (arr s < length m \<and> off s + len s \<le> length (m ! arr s))"

definition mem_get :: "memory \<Rightarrow> slice \<Rightarrow> nat \<Rightarrow> ProviderInfo" where
  "mem_get m s i = m ! arr s ! (off s + i)"

definition mem_set :: "memory \<Rightarrow> slice \<Rightarrow> nat \<Rightarrow> ProviderInfo \<Rightarrow> memory" where
  "mem_set m s i v = m[arr s := (m ! arr s)[off s + i := v]]"

definition slice_contents :: "memory \<Rightarrow> slice \<Rightarrow> ProviderInfo list" where
  "slice_contents m s = map (mem_get m s) [0..<len s]"

text \<open>The slice that \<^verbatim>\<open>make\<close> returns: the whole of a new array, at the next free address.\<close>

definition fresh_slice :: "memory \<Rightarrow> nat \<Rightarrow> slice" where
  "fresh_slice m n = \<lparr>arr = length m, off = 0, len = n\<rparr>"

definition make_slice :: "memory \<Rightarrow> nat \<Rightarrow> slice \<times> memory" where
  "make_slice m n = (fresh_slice m n, m @ [replicate n zeroInfo])"

definition copy_slice :: "slice \<Rightarrow> slice \<Rightarrow> memory \<Rightarrow> memory" where
  "copy_slice dst src m =
     fold (\<lambda>i m. mem_set m dst i (mem_get m src i)) [0..<min (len dst) (len src)] m"

definition TestProviders_mem_task ::
  "(string \<Rightarrow> client_error + transfer) \<Rightarrow> slice \<Rightarrow> nat \<Rightarrow> memory \<Rightarrow> memory" where
  "TestProviders_mem_task Get result idx m =
     (let speed = fst (testSpeed Get (URL (mem_get m result idx)) []);
          m = mem_set m result idx ((mem_get m result idx)\<lparr>Speed := speed\<rparr>);
          m =
            (if Speed (mem_get m result idx) > 0 \<and> Size (mem_get m result idx) > 0
             then let speedInBytes = Speed (mem_get m result idx) * 1000 * 1000
                  in mem_set m result idx ((mem_get m result idx)
                       \<lparr>DownloadTime := real_of_int (Size (mem_get m result idx)) / speedInBytes\<rparr>)
             else mem_set m result idx ((mem_get m result idx)\<lparr>DownloadTime := maxSentinel\<rparr>))
      in m)"

definition TestProviders_mem ::
  "(string \<Rightarrow> client_error + transfer) \<Rightarrow> slice \<Rightarrow> memory \<Rightarrow> slice \<times> memory" where
  "TestProviders_mem Get providers m =
     (case make_slice m (len providers) of (result, m) \<Rightarrow>
        let m = copy_slice result providers m;
            m = fold (TestProviders_mem_task Get result) [0..<len result] m
        in (result, m))"

section \<open>Selector and the run\<close>

text \<open>
  \<^verbatim>\<open>sort.Slice\<close> belongs to the Go standard library. The program passes it the comparison
  \<open>faster\<close> (\<^verbatim>\<open>providers[i].Speed > providers[j].Speed\<close>). What the library promises is
  \<open>sort_Slice_post\<close>: the slice afterwards is a rearrangement of the slice before, and no
  element is \<^verbatim>\<open>less\<close> than an element in front of it. Its documentation adds that the
  sort is not guaranteed to be stable. The run takes the sorting function as a
  parameter; \<open>sort_Slice_ok\<close> says that a function keeps the library's promise.
\<close>

definition faster :: "ProviderInfo \<Rightarrow> ProviderInfo \<Rightarrow> bool" where
  "faster a b = (Speed a > Speed b)"

definition sort_Slice_post ::
  "('a \<Rightarrow> 'a \<Rightarrow> bool) \<Rightarrow> 'a list \<Rightarrow> 'a list \<Rightarrow> bool" where
  "sort_Slice_post lessf xs ys = (mset ys = mset xs \<and> sorted_wrt (\<lambda>a b. \<not> lessf b a) ys)"

definition sort_Slice_ok ::
  "(('a \<Rightarrow> 'a \<Rightarrow> bool) \<Rightarrow> 'a list \<Rightarrow> 'a list) \<Rightarrow> ('a \<Rightarrow> 'a \<Rightarrow> bool) \<Rightarrow> bool" where
  "sort_Slice_ok srt lessf = (\<forall>xs. sort_Slice_post lessf xs (srt lessf xs))"

text \<open>
  One sorting function that keeps the promise for \<open>faster\<close>, for use at concrete inputs:
  insertion sort, each element going in front of the first element it is \<^verbatim>\<open>less\<close> than.
\<close>

fun insert_sorted :: "('a \<Rightarrow> 'a \<Rightarrow> bool) \<Rightarrow> 'a \<Rightarrow> 'a list \<Rightarrow> 'a list" where
  "insert_sorted lessf x [] = [x]"
| "insert_sorted lessf x (y # ys) =
     (if lessf x y then x # y # ys else y # insert_sorted lessf x ys)"

fun insertion_sort_acc :: "('a \<Rightarrow> 'a \<Rightarrow> bool) \<Rightarrow> 'a list \<Rightarrow> 'a list \<Rightarrow> 'a list" where
  "insertion_sort_acc lessf [] done_part = done_part"
| "insertion_sort_acc lessf (x # xs) done_part =
     insertion_sort_acc lessf xs (insert_sorted lessf x done_part)"

definition insertion_sorter :: "('a \<Rightarrow> 'a \<Rightarrow> bool) \<Rightarrow> 'a list \<Rightarrow> 'a list" where
  "insertion_sorter lessf xs = insertion_sort_acc lessf xs []"



text \<open>
  The manual prompt (\<^verbatim>\<open>root.go\<close>, lines 178-186). \<^verbatim>\<open>fmt.Scanf("%d", &choice)\<close> either
  stores the integer it parsed in \<^verbatim>\<open>choice\<close> or fails and leaves \<^verbatim>\<open>choice\<close> as it was
  (the program ignores the error). The console input is the function that gives, for
  the \<open>k\<close>-th call, what that call parsed, if anything (how \<^verbatim>\<open>fmt\<close> cuts the typed
  characters into calls is the library's business). The loop ends only at a valid
  choice; on an input that never gives one it runs forever, which is the value \<open>None\<close>.
  The result is the choice and the number of prompts shown.
\<close>

partial_function (option) select_loop ::
  "(nat \<Rightarrow> int option) \<Rightarrow> nat \<Rightarrow> nat \<Rightarrow> int \<Rightarrow> (int \<times> nat) option" where
  "select_loop scanf n k choice =
     (let choice = (case scanf k of None \<Rightarrow> choice | Some v \<Rightarrow> v)
      in if choice > 0 \<and> choice \<le> int n then Some (choice, Suc k)
         else select_loop scanf n (Suc k) choice)"

text \<open>
  The vocabulary of the claims about the prompt: an input that is not a valid choice
  among \<open>n\<close> candidates (nothing parsed, or a number outside 1..\<open>n\<close>), and what it means
  for the loop, started at the \<open>k\<close>-th input, to have ended with the result \<open>r\<close>: the
  choice is in range, it is what the last input read gave, and every input before it
  was invalid.
\<close>

definition invalid_input :: "nat \<Rightarrow> int option \<Rightarrow> bool" where
  "invalid_input n x = (case x of None \<Rightarrow> True | Some v \<Rightarrow> \<not> (0 < v \<and> v \<le> int n))"

definition chosen_ok :: "(nat \<Rightarrow> int option) \<Rightarrow> nat \<Rightarrow> nat \<Rightarrow> int \<times> nat \<Rightarrow> bool" where
  "chosen_ok scanf n k r =
     (0 < fst r \<and> fst r \<le> int n \<and> k < snd r \<and> scanf (snd r - 1) = Some (fst r)
      \<and> (\<forall>j. k \<le> j \<and> j < snd r - 1 \<longrightarrow> invalid_input n (scanf j)))"

datatype run_error =
    InvalidNodeType string
  | InvalidSnapshotType string
  | LoadConfigFailed string
  | NoSnapshotsFound string string
  | NoHealthySnapshots
  | NoSnapshotsAvailable
  | HomeDirFailed
  | DownloadFailed
  | PanicIndexOutOfRange

text \<open>\<^verbatim>\<open>providers[i]\<close> for an \<^verbatim>\<open>int\<close> index: out of range, the Go program panics.\<close>

definition index_at :: "ProviderInfo list \<Rightarrow> int \<Rightarrow> run_error + ProviderInfo" where
  "index_at providers i =
     (if 0 \<le> i \<and> i < int (length providers) then Inr (providers ! nat i)
      else Inl PanicIndexOutOfRange)"

text \<open>
  The selection of \<^verbatim>\<open>runRoot\<close> (lines 165-192), on the sorted slice: \<open>None\<close> when the
  prompt never ends, otherwise the error or the \<^verbatim>\<open>selectedProvider\<close>.
\<close>

definition selectProvider ::
  "bool \<Rightarrow> (nat \<Rightarrow> int option) \<Rightarrow> ProviderInfo list \<Rightarrow> (run_error + ProviderInfo) option" where
  "selectProvider manual scanf providers =
     (if length providers = 0 then Some (Inl NoSnapshotsAvailable)
      else if length providers = 1 then Some (index_at providers 0)
      else if manual then
        (case select_loop scanf (length providers) 0 0 of
           None \<Rightarrow> None
         | Some (choice, k) \<Rightarrow> Some (index_at providers (choice - 1)))
      else Some (index_at providers 0))"

text \<open>\<^verbatim>\<open>validateArgs\<close> (lines 224-250): the two lookup tables.\<close>

definition nodeTypeMap :: "string \<rightharpoonup> string" where
  "nodeTypeMap =
     [''c'' \<mapsto> ''consensus'', ''b'' \<mapsto> ''bridge'',
      ''consensus'' \<mapsto> ''consensus'', ''bridge'' \<mapsto> ''bridge'']"

definition snapshotTypeMap :: "string \<rightharpoonup> string" where
  "snapshotTypeMap =
     [''p'' \<mapsto> ''pruned'', ''a'' \<mapsto> ''archive'',
      ''pruned'' \<mapsto> ''pruned'', ''archive'' \<mapsto> ''archive'']"

definition validateArgs :: "string \<Rightarrow> string \<Rightarrow> run_error + string \<times> string" where
  "validateArgs nodeType snapshotType =
     (case nodeTypeMap nodeType of
        None \<Rightarrow> Inl (InvalidNodeType nodeType)
      | Some fullNodeType \<Rightarrow>
          (case snapshotTypeMap snapshotType of
             None \<Rightarrow> Inl (InvalidSnapshotType snapshotType)
           | Some fullSnapshotType \<Rightarrow> Inr (fullNodeType, fullSnapshotType)))"

text \<open>
  Everything \<^verbatim>\<open>runRoot\<close> takes from outside: the flags, what \<^verbatim>\<open>fetchProviders\<close> returned,
  the two HTTP clients, the library's sort, the console, the home directory, the path
  join and the downloader.
\<close>

record DownloadResult =
  ResultPath :: string
  ResultSize :: int

record env =
  flag_chainID :: string
  flag_manual :: bool
  fetched :: "string + Config"
  client_Head :: "string \<Rightarrow> client_error + response"
  client_Get :: "string \<Rightarrow> client_error + transfer"
  sort_Slice ::
    "(ProviderInfo \<Rightarrow> ProviderInfo \<Rightarrow> bool) \<Rightarrow> ProviderInfo list \<Rightarrow> ProviderInfo list"
  console_Scanf :: "nat \<Rightarrow> int option"
  os_UserHomeDir :: "string option"
  filepath_Join :: "string \<Rightarrow> string \<Rightarrow> string"
  downloader_Download :: "string \<Rightarrow> string \<Rightarrow> DownloadResult option"

text \<open>
  \<^verbatim>\<open>runRoot\<close> (lines 93-222), without the console output. The result is \<open>None\<close> when
  the manual prompt never ends; otherwise the requests issued to the candidates' URLs
  and the error returned, or the result of the download.
\<close>

definition runRoot ::
  "env \<Rightarrow> string \<Rightarrow> string \<Rightarrow> (request list \<times> (run_error + DownloadResult)) option" where
  "runRoot e arg0 arg1 =
     (case validateArgs arg0 arg1 of
        Inl err \<Rightarrow> Some ([], Inl err)
      | Inr (nodeType, snapshotType) \<Rightarrow>
         (case fetched e of
            Inl err \<Rightarrow> Some ([], Inl (LoadConfigFailed err))
          | Inr cfg \<Rightarrow>
             let providers = FilterProviders (Providers cfg) nodeType snapshotType (flag_chainID e)
             in if length providers = 0
                then Some ([], Inl (NoSnapshotsFound nodeType snapshotType))
                else
                  (case CheckHealth (client_Head e) providers [] of (providers, reqs) \<Rightarrow>
                     if length providers = 0 then Some (reqs, Inl NoHealthySnapshots)
                     else
                       (case TestProviders (client_Get e) providers reqs of (providers, reqs) \<Rightarrow>
                          let providers = sort_Slice e faster providers
                          in (case selectProvider (flag_manual e) (console_Scanf e) providers of
                                None \<Rightarrow> None
                              | Some (Inl err) \<Rightarrow> Some (reqs, Inl err)
                              | Some (Inr selectedProvider) \<Rightarrow>
                                  (case os_UserHomeDir e of
                                     None \<Rightarrow> Some (reqs, Inl HomeDirFailed)
                                   | Some homeDir \<Rightarrow>
                                       let downloadDir = filepath_Join e homeDir ''celestia-snapshots'';
                                           reqs = reqs @ [DOWNLOAD (URL selectedProvider) downloadDir]
                                       in (case downloader_Download e (URL selectedProvider) downloadDir of
                                             None \<Rightarrow> Some (reqs, Inl DownloadFailed)
                                           | Some res \<Rightarrow> Some (reqs, Inr res))))))))"

section \<open>Concrete inputs\<close>

text \<open>
  A small world to run the definitions in: candidates \<open>A\<close> to \<open>F\<close>, a client for the
  health probe that answers \<open>A\<close> with a size, fails to connect to \<open>B\<close>, times out on \<open>C\<close>,
  answers \<open>D\<close> with 404, \<open>E\<close> with a negative size header, \<open>H\<close> with the largest size an
  \<^verbatim>\<open>int64\<close> holds, and anything else without a size header.
\<close>

definition cand :: "string \<Rightarrow> string \<Rightarrow> ProviderInfo" where
  "cand n u = \<lparr>Name = n, URL = u, MetadataURL = [], Speed = 0, Size = 0, DownloadTime = 0\<rparr>"

definition head0 :: "string \<Rightarrow> client_error + response" where
  "head0 url =
     (if url = ''https://a/s.tar''
      then Inr \<lparr>StatusCode = 200, Header = [(''Content-Length'', ''1024'')]\<rparr>
      else if url = ''https://b/s.tar'' then Inl ConnectionFailure
      else if url = ''https://c/s.tar'' then Inl TimeoutExceeded
      else if url = ''https://d/s.tar'' then Inr \<lparr>StatusCode = 404, Header = []\<rparr>
      else if url = ''https://e/s.tar''
      then Inr \<lparr>StatusCode = 200, Header = [(''Content-Length'', ''-5'')]\<rparr>
      else if url = ''https://h/s.tar''
      then Inr \<lparr>StatusCode = 200, Header = [(''Content-Length'', ''9223372036854775807'')]\<rparr>
      else Inr \<lparr>StatusCode = 200, Header = []\<rparr>)"

text \<open>
  A client for the speed test: \<open>A\<close> and \<open>E\<close> deliver 31250 bytes and the end of the stream
  within 15.625 milliseconds (2000000 bytes per second), the connection to \<open>B\<close> fails, \<open>H\<close> delivers one byte and the
  end of the stream within a second, \<open>F\<close> delivers nothing, \<open>G\<close> delivers
  two full buffers and then fails, with 4 seconds between the clock readings, and
  anything else has three full buffers to deliver, with 6 seconds between the readings,
  so that the deadline passes before the third is read.
\<close>

definition transferA :: transfer where
  "transferA = \<lparr>reads = [(31250, EOF)], elapsed = (\<lambda>k. 15625000)\<rparr>"

definition transferF :: transfer where
  "transferF = \<lparr>reads = [(0, EOF)], elapsed = (\<lambda>k. 5000000)\<rparr>"

definition transferG :: transfer where
  "transferG = \<lparr>reads = [(32768, NoError), (32768, NoError), (100, ReadFailure)],
                 elapsed = (\<lambda>k. k * 4000000000)\<rparr>"

definition transferH :: transfer where
  "transferH = \<lparr>reads = [(32768, NoError), (32768, NoError), (32768, NoError)],
                 elapsed = (\<lambda>k. k * 6000000000)\<rparr>"

definition transferOne :: transfer where
  "transferOne = \<lparr>reads = [(1, EOF)], elapsed = (\<lambda>k. 1000000000)\<rparr>"

definition get0 :: "string \<Rightarrow> client_error + transfer" where
  "get0 url =
     (if url = ''https://a/s.tar'' \<or> url = ''https://e/s.tar'' then Inr transferA
      else if url = ''https://b/s.tar'' then Inl ConnectionFailure
      else if url = ''https://h/s.tar'' then Inr transferOne
      else if url = ''https://f/s.tar'' then Inr transferF
      else if url = ''https://g/s.tar'' then Inr transferG
      else Inr transferH)"

text \<open>
  A console on which the user first types something that is not a number, then 7, then
  0, then 2 (and 2 again whenever asked further); candidates with a given rate; a
  catalog of four providers; and a run in automatic mode for the chain
  \<^verbatim>\<open>celestia\<close>, with insertion sort standing for \<^verbatim>\<open>sort.Slice\<close>.
\<close>

definition script0 :: "nat \<Rightarrow> int option" where
  "script0 k = (if k = 0 then None else if k = 1 then Some 7 else if k = 2 then Some 0 else Some 2)"

definition rated :: "string \<Rightarrow> real \<Rightarrow> ProviderInfo" where
  "rated n v = \<lparr>Name = n, URL = ''https://'' @ n @ ''/s.tar'', MetadataURL = [], Speed = v,
                Size = 0, DownloadTime = maxSentinel\<rparr>"

definition snap :: "string \<Rightarrow> string \<Rightarrow> string \<Rightarrow> Snapshot" where
  "snap t c u = \<lparr>Type = t, ChainID = c, SnapURL = u, SnapMetadataURL = []\<rparr>"

definition catalog0 :: "Provider list" where
  "catalog0 =
     [\<lparr>ProvName = ''A'', Snapshots = [snap ''consensus-pruned'' ''celestia'' ''https://a/s.tar'']\<rparr>,
      \<lparr>ProvName = ''B'', Snapshots = [snap ''consensus-pruned'' ''celestia'' ''https://b/s.tar'',
                                      snap ''bridge-pruned'' ''celestia'' ''https://b/s.tar'']\<rparr>,
      \<lparr>ProvName = ''G'', Snapshots = [snap ''consensus-pruned'' ''mocha-4'' ''https://m/s.tar'',
                                      snap ''consensus-pruned'' ''celestia'' ''https://g/s.tar'']\<rparr>,
      \<lparr>ProvName = ''D'', Snapshots = [snap ''bridge-pruned'' ''celestia'' ''https://d/s.tar'']\<rparr>]"

definition env0 :: env where
  "env0 = \<lparr>flag_chainID = ''celestia'', flag_manual = False,
           fetched = Inr \<lparr>Providers = catalog0\<rparr>,
           client_Head = head0, client_Get = get0, sort_Slice = insertion_sorter,
           console_Scanf = script0, os_UserHomeDir = Some ''/home/u'',
           filepath_Join = (\<lambda>a b. a @ ''/'' @ b),
           downloader_Download = (\<lambda>u d. Some \<lparr>ResultPath = d @ ''/s.tar'', ResultSize = 1024\<rparr>)\<rparr>"

section \<open>Properties of the catalog filter\<close>

lemma FilterProviders_inner_eq:
  "FilterProviders_inner targetType chainID p ss result =
     result @ map candidate_of
       (filter (entry_matches targetType chainID) (map (\<lambda>s. (ProvName p, s)) ss))"
  by (induction ss arbitrary: result)
     (simp_all add: entry_matches_def candidate_of_def zeroInfo_def)

lemma FilterProviders_outer_eq:
  "FilterProviders_outer targetType chainID ps result =
     result @ map candidate_of
       (filter (entry_matches targetType chainID) (catalog_entries ps))"
  by (induction ps arbitrary: result)
     (simp_all add: catalog_entries_def FilterProviders_inner_eq)

text \<open>
  Claim C2. For every catalog and every request (category, variant, identifier), the
  output of \<open>FilterProviders\<close> is exactly the catalog entries whose composite type key is
  category-variant and whose identifier matches (or the identifier filter is empty),
  each turned into a candidate, in catalog order: every output entry comes from a
  matching catalog entry, no non-matching entry appears, no matching entry is lost,
  and the order is the catalog's. The function takes no network client.
\<close>

theorem C2_FilterProviders_filter:
  "FilterProviders providers nodeType snapshotType chainID =
     map candidate_of
       (filter (entry_matches (nodeType @ ''-'' @ snapshotType) chainID)
          (catalog_entries providers))"
  by (simp add: FilterProviders_def FilterProviders_outer_eq)

theorem C2_witness:
  "FilterProviders catalog0 ''consensus'' ''pruned'' ''celestia''
     = [cand ''A'' ''https://a/s.tar'', cand ''B'' ''https://b/s.tar'',
        cand ''G'' ''https://g/s.tar'']
   \<and> FilterProviders catalog0 ''consensus'' ''pruned'' []
     = [cand ''A'' ''https://a/s.tar'', cand ''B'' ''https://b/s.tar'',
        cand ''G'' ''https://m/s.tar'', cand ''G'' ''https://g/s.tar'']"
  using C2_FilterProviders_filter [of catalog0 "''consensus''" "''pruned''" "''celestia''"]
    C2_FilterProviders_filter [of catalog0 "''consensus''" "''pruned''" "[]"]
  by (simp add: catalog_entries_def entry_matches_def candidate_of_def catalog0_def snap_def
        cand_def)

section \<open>Properties of the health prober\<close>

lemma ParseInt_Nil: "ParseInt [] = Inl NumError"
  by (simp add: ParseInt_def)

lemma ParseInt_range: "ParseInt s = Inr n \<Longrightarrow> - (2 ^ 63) \<le> n \<and> n < 2 ^ 63"
  by (auto simp: ParseInt_def Let_def split: if_splits)

lemma ParseInt_digits:
  "ds \<noteq> [] \<Longrightarrow> list_all isDigit ds \<Longrightarrow> decimal ds < 2 ^ 63
     \<Longrightarrow> ParseInt ds = Inr (int (decimal ds))"
  by (cases ds) (auto simp: ParseInt_def Let_def isDigit_def)

lemma isHealthy_eq:
  "isHealthy Head (URL p) p reqs =
     ((probe_ok Head p,
       (case Head (URL p) of
          Inl err \<Rightarrow> Some (ConnectionFailed err)
        | Inr resp \<Rightarrow> if StatusCode resp \<noteq> StatusOK
                      then Some (UnexpectedStatusCode (StatusCode resp)) else None)),
      (if probe_ok Head p then captured Head p else p),
      reqs @ [HEAD (URL p)])"
  by (simp add: isHealthy_def probe_ok_def captured_def size_header_def declared_size_def
        ParseInt_Nil Let_def split: sum.splits)

lemma CheckHealth_loop_eq:
  "CheckHealth_loop Head ps healthy reqs =
     (healthy @ map (captured Head) (filter (probe_ok Head) ps),
      reqs @ map (\<lambda>p. HEAD (URL p)) ps)"
  by (induction ps arbitrary: healthy reqs) (simp_all add: isHealthy_eq)

lemma CheckHealth_eq:
  "CheckHealth Head ps reqs =
     (map (captured Head) (filter (probe_ok Head) ps), reqs @ map (\<lambda>p. HEAD (URL p)) ps)"
  by (simp add: CheckHealth_def CheckHealth_loop_eq)

lemma probe_ok_iff:
  "probe_ok Head p \<longleftrightarrow> (\<exists>resp. Head (URL p) = Inr resp \<and> StatusCode resp = 200)"
  by (simp add: probe_ok_def StatusOK_def split: sum.splits)

text \<open>
  Claim C3. A candidate is kept by the health prober if and only if its \<^verbatim>\<open>HEAD\<close> request
  returned a response (the client reported neither a connection failure nor a timeout)
  and the status of the response is the successful one, \<^verbatim>\<open>http.StatusOK\<close> (200). The
  output is the input with exactly the other candidates dropped, each kept candidate
  carrying the size captured; an error of the client of any kind and any other status
  make \<open>isHealthy\<close> return \<^verbatim>\<open>false\<close>, and there is no third outcome. One request is made
  per candidate.
\<close>

theorem C3_CheckHealth_keeps_iff_ok:
  "fst (CheckHealth Head providers reqs) = map (captured Head) (filter (probe_ok Head) providers)
   \<and> snd (CheckHealth Head providers reqs) = reqs @ map (\<lambda>p. HEAD (URL p)) providers
   \<and> (probe_ok Head p \<longleftrightarrow> (\<exists>resp. Head (URL p) = Inr resp \<and> StatusCode resp = 200))
   \<and> (fst (fst (isHealthy Head (URL p) p reqs)) \<longleftrightarrow> probe_ok Head p)
   \<and> (\<forall>err. Head (URL p) = Inl err \<longrightarrow> \<not> fst (fst (isHealthy Head (URL p) p reqs)))
   \<and> (\<forall>resp. Head (URL p) = Inr resp \<longrightarrow> StatusCode resp \<noteq> 200
         \<longrightarrow> \<not> fst (fst (isHealthy Head (URL p) p reqs)))"
  by (simp add: CheckHealth_eq isHealthy_eq probe_ok_iff)

theorem C3_witness:
  "fst (CheckHealth head0
      [cand ''A'' ''https://a/s.tar'', cand ''B'' ''https://b/s.tar'',
       cand ''C'' ''https://c/s.tar'', cand ''D'' ''https://d/s.tar''] [])
     = [(cand ''A'' ''https://a/s.tar'')\<lparr>Size := 1024\<rparr>]
   \<and> head0 ''https://b/s.tar'' = Inl ConnectionFailure
   \<and> head0 ''https://c/s.tar'' = Inl TimeoutExceeded
   \<and> \<not> fst (fst (isHealthy head0 ''https://d/s.tar'' (cand ''D'' ''https://d/s.tar'') []))"
  using C3_CheckHealth_keeps_iff_ok [of head0
      "[cand ''A'' ''https://a/s.tar'', cand ''B'' ''https://b/s.tar'',
        cand ''C'' ''https://c/s.tar'', cand ''D'' ''https://d/s.tar'']" "[]"
      "cand ''D'' ''https://d/s.tar''"]
  by (simp add: probe_ok_def captured_def size_header_def declared_size_def head0_def cand_def
        StatusOK_def Header_Get_def ParseInt_def isDigit_def decimal_def digitVal_def)

text \<open>
  Claim C5, as the code has it. Every candidate in the output of the health prober is an
  input candidate whose probe succeeded, with nothing but its size changed, and the
  size header never fails it: all candidates whose probe succeeded are in the output.
  The size is 0 when the header is absent or \<^verbatim>\<open>strconv.ParseInt\<close> rejects it, and the
  parsed value otherwise. \<^verbatim>\<open>ParseInt\<close> reads a signed integer, so the size is negative
  exactly when the header is a negative integer, and at least 0 in every other case; it
  always fits an \<^verbatim>\<open>int64\<close>.
\<close>

theorem C5_CheckHealth_size:
  "q \<in> set (fst (CheckHealth Head providers reqs)) \<Longrightarrow>
     \<exists>p \<in> set providers.
        probe_ok Head p \<and> q = p\<lparr>Size := Size q\<rparr>
      \<and> (size_header Head p = [] \<longrightarrow> Size q = 0)
      \<and> (\<forall>err. ParseInt (size_header Head p) = Inl err \<longrightarrow> Size q = 0)
      \<and> (\<forall>n. ParseInt (size_header Head p) = Inr n \<longrightarrow> Size q = n)
      \<and> (Size q < 0 \<longleftrightarrow> (\<exists>n < 0. ParseInt (size_header Head p) = Inr n))
      \<and> - (2 ^ 63) \<le> Size q \<and> Size q < 2 ^ 63
      \<and> length (fst (CheckHealth Head providers reqs)) = length (filter (probe_ok Head) providers)"
proof -
  assume "q \<in> set (fst (CheckHealth Head providers reqs))"
  then obtain p where p: "p \<in> set providers" "probe_ok Head p" "q = captured Head p"
    by (auto simp: CheckHealth_eq)
  have sz: "Size q = declared_size (size_header Head p)"
    using p(3) by (simp add: captured_def)
  have rng: "- (2 ^ 63) \<le> declared_size h \<and> declared_size h < 2 ^ 63" for h
    using ParseInt_range [of h] by (auto simp: declared_size_def split: sum.splits)
  have "q = p\<lparr>Size := Size q\<rparr>"
    using p(3) by (simp add: captured_def)
  moreover have "size_header Head p = [] \<longrightarrow> Size q = 0"
    by (simp add: sz declared_size_def ParseInt_Nil)
  moreover have "\<forall>err. ParseInt (size_header Head p) = Inl err \<longrightarrow> Size q = 0"
    by (simp add: sz declared_size_def)
  moreover have "\<forall>n. ParseInt (size_header Head p) = Inr n \<longrightarrow> Size q = n"
    by (simp add: sz declared_size_def)
  moreover have "Size q < 0 \<longleftrightarrow> (\<exists>n < 0. ParseInt (size_header Head p) = Inr n)"
    by (auto simp: sz declared_size_def split: sum.splits)
  moreover have "- (2 ^ 63) \<le> Size q \<and> Size q < 2 ^ 63"
    using rng by (simp add: sz)
  moreover have "length (fst (CheckHealth Head providers reqs))
      = length (filter (probe_ok Head) providers)"
    by (simp add: CheckHealth_eq)
  ultimately show ?thesis
    using p(1,2) by blast
qed

theorem C5_witness:
  "(cand ''A'' ''https://a/s.tar'')\<lparr>Size := 1024\<rparr>
      \<in> set (fst (CheckHealth head0 [cand ''A'' ''https://a/s.tar'', cand ''F'' ''https://f/s.tar''] []))
   \<and> ParseInt (size_header head0 (cand ''A'' ''https://a/s.tar'')) = Inr 1024
   \<and> fst (CheckHealth head0 [cand ''A'' ''https://a/s.tar'', cand ''F'' ''https://f/s.tar''] [])
       = [(cand ''A'' ''https://a/s.tar'')\<lparr>Size := 1024\<rparr>, cand ''F'' ''https://f/s.tar'']"
proof -
  have ev: "fst (CheckHealth head0 [cand ''A'' ''https://a/s.tar'', cand ''F'' ''https://f/s.tar''] [])
       = [(cand ''A'' ''https://a/s.tar'')\<lparr>Size := 1024\<rparr>, cand ''F'' ''https://f/s.tar'']"
    by (simp add: CheckHealth_def isHealthy_def head0_def cand_def StatusOK_def Header_Get_def
          ParseInt_def isDigit_def decimal_def digitVal_def)
  have mem: "(cand ''A'' ''https://a/s.tar'')\<lparr>Size := 1024\<rparr>
      \<in> set (fst (CheckHealth head0 [cand ''A'' ''https://a/s.tar'', cand ''F'' ''https://f/s.tar''] []))"
    by (simp add: ev)
  have hdr: "ParseInt (size_header head0 (cand ''A'' ''https://a/s.tar'')) = Inr 1024"
    by (simp add: size_header_def head0_def cand_def Header_Get_def
          ParseInt_def isDigit_def decimal_def digitVal_def)
  from C5_CheckHealth_size [OF mem] mem hdr ev show ?thesis by blast
qed

text \<open>
  The claim C5 as the specification states it fails: a response with status 200 and the
  header \<^verbatim>\<open>Content-Length: -5\<close> passes the probe, \<^verbatim>\<open>ParseInt\<close> accepts the header, and the
  candidate leaves the health prober with size -5.
\<close>

theorem C5_counterexample:
  "map Size (fst (CheckHealth head0 [cand ''E'' ''https://e/s.tar''] [])) = [- 5]
   \<and> \<not> 0 \<le> Size (hd (fst (CheckHealth head0 [cand ''E'' ''https://e/s.tar''] [])))"
  by (simp add: CheckHealth_def isHealthy_def head0_def cand_def StatusOK_def Header_Get_def
        ParseInt_def isDigit_def decimal_def digitVal_def)

section \<open>Properties of the throughput prober\<close>

lemma read_loop_nonneg: "0 \<le> tot \<Longrightarrow> 0 \<le> fst (read_loop clk k rs tot)"
  by (induction clk k rs tot rule: read_loop.induct) auto

lemma bytes_read_nonneg: "0 \<le> bytes_read t"
  by (simp add: bytes_read_def read_loop_nonneg)

lemma testSpeed_eq:
  "testSpeed Get url reqs = (measured_rate Get url, reqs @ [GET url])"
  by (simp add: testSpeed_def measured_rate_def Let_def split: sum.splits prod.splits)

lemma measured_rate_eq:
  "measured_rate Get url =
     (case Get url of
        Inl err \<Rightarrow> 0
      | Inr t \<Rightarrow> if elapsed_seconds t = 0 then 0
                 else real_of_int (bytes_read t) / elapsed_seconds t / 1000 / 1000)"
  by (simp add: testSpeed_def measured_rate_def bytes_read_def elapsed_seconds_def Let_def
        split: sum.splits prod.splits)

lemma elapsed_seconds_nonneg: "0 \<le> elapsed_seconds t"
  by (simp add: elapsed_seconds_def Seconds_def)

lemma measured_rate_nonneg: "0 \<le> measured_rate Get url"
  using bytes_read_nonneg elapsed_seconds_nonneg
  by (auto simp: measured_rate_eq split: sum.splits)


lemma TestProviders_task_eq:
  "idx < length result \<Longrightarrow>
   TestProviders_task Get idx (result, reqs) =
     (result[idx := annotated Get (result ! idx)], reqs @ [GET (URL (result ! idx))])"
  by (simp add: TestProviders_task_def testSpeed_eq annotated_def Let_def)

lemma fold_tasks:
  "k \<le> length ps \<Longrightarrow>
   fold (TestProviders_task Get) [0..<k] (ps, reqs) =
     (map (annotated Get) (take k ps) @ drop k ps, reqs @ map (\<lambda>p. GET (URL p)) (take k ps))"
proof (induction k)
  case 0
  then show ?case by simp
next
  case (Suc k)
  then have k: "k < length ps" by simp
  have nth: "(map (annotated Get) (take k ps) @ drop k ps) ! k = ps ! k"
    using k by (simp add: nth_append)
  have upd: "(map (annotated Get) (take k ps) @ drop k ps)[k := annotated Get (ps ! k)]
      = map (annotated Get) (take (Suc k) ps) @ drop (Suc k) ps"
    using k by (simp add: take_Suc_conv_app_nth list_update_append Cons_nth_drop_Suc [symmetric])
  show ?case
    using Suc k nth upd by (simp add: TestProviders_task_eq take_Suc_conv_app_nth)
qed

lemma TestProviders_eq:
  "TestProviders Get ps reqs = (map (annotated Get) ps, reqs @ map (\<lambda>p. GET (URL p)) ps)"
  by (simp add: TestProviders_def fold_tasks)

text \<open>
  Claim C7, as the code has it. The measured rate is in megabytes per second: when the
  elapsed time is not 0 it is the bytes counted, divided by the elapsed seconds, divided
  by 1000000. It is 0 when the connection could not be opened, when no byte was
  counted, and when the elapsed time is exactly 0, and it is never negative. The bytes
  counted are those of the reads that returned no error or the end of the stream before
  the deadline.
\<close>

theorem C7_testSpeed_rate:
  "(\<forall>err. Get url = Inl err \<longrightarrow> measured_rate Get url = 0)
   \<and> (\<forall>t. Get url = Inr t \<longrightarrow>
          (bytes_read t = 0 \<longrightarrow> measured_rate Get url = 0)
        \<and> (elapsed_seconds t = 0 \<longrightarrow> measured_rate Get url = 0)
        \<and> (elapsed_seconds t \<noteq> 0 \<longrightarrow>
             measured_rate Get url = real_of_int (bytes_read t) / elapsed_seconds t / 1000000))
   \<and> 0 \<le> measured_rate Get url
   \<and> testSpeed Get url reqs = (measured_rate Get url, reqs @ [GET url])"
  using measured_rate_nonneg [of Get url]
  by (simp add: measured_rate_eq testSpeed_eq)

theorem C7_witness:
  "get0 ''https://g/s.tar'' = Inr transferG
   \<and> bytes_read transferG = 65536 \<and> elapsed_seconds transferG = 12
   \<and> measured_rate get0 ''https://g/s.tar'' = 65536 / 12 / 1000000
   \<and> measured_rate get0 ''https://b/s.tar'' = 0
   \<and> measured_rate get0 ''https://f/s.tar'' = 0"
proof -
  have g: "get0 ''https://g/s.tar'' = Inr transferG"
    by (simp add: get0_def)
  have b: "get0 ''https://b/s.tar'' = Inl ConnectionFailure"
    by (simp add: get0_def)
  have f: "get0 ''https://f/s.tar'' = Inr transferF"
    by (simp add: get0_def)
  have bg: "bytes_read transferG = 65536"
    by (simp add: bytes_read_def transferG_def testDuration_def)
  have eg: "elapsed_seconds transferG = 12"
    by (simp add: elapsed_seconds_def transferG_def testDuration_def Seconds_def)
  have bf: "bytes_read transferF = 0"
    by (simp add: bytes_read_def transferF_def testDuration_def)
  from C7_testSpeed_rate [of get0 "''https://g/s.tar''" "[]"] g bg eg
  have 1: "measured_rate get0 ''https://g/s.tar'' = 65536 / 12 / 1000000" by simp
  from C7_testSpeed_rate [of get0 "''https://b/s.tar''" "[]"] b
  have 2: "measured_rate get0 ''https://b/s.tar'' = 0" by simp
  from C7_testSpeed_rate [of get0 "''https://f/s.tar''" "[]"] f bf
  have 3: "measured_rate get0 ''https://f/s.tar'' = 0" by simp
  from g bg eg 1 2 3 show ?thesis by simp
qed

text \<open>
  The claim C7 as the specification states it fails on the unit: a probe that counts
  31250 bytes in 15.625 milliseconds read 2000000 bytes per second, and \<open>testSpeed\<close>
  returns 2.
\<close>

theorem C7_counterexample:
  "get0 ''https://a/s.tar'' = Inr transferA
   \<and> real_of_int (bytes_read transferA) / elapsed_seconds transferA = 2000000
   \<and> fst (testSpeed get0 ''https://a/s.tar'' []) = 2"
  by (simp add: testSpeed_def bytes_read_def elapsed_seconds_def get0_def transferA_def
        testDuration_def Seconds_def)

text \<open>
  Claim C4. The output of the throughput prober has as many candidates as its input,
  the candidate at each index being the input's candidate at that index; a candidate
  whose connection could not be opened, or whose probe counted no byte, is still there,
  with rate 0.
\<close>

theorem C4_TestProviders_keeps_all:
  "length (fst (TestProviders Get providers reqs)) = length providers
   \<and> (\<forall>i < length providers.
          Name (fst (TestProviders Get providers reqs) ! i) = Name (providers ! i)
        \<and> URL (fst (TestProviders Get providers reqs) ! i) = URL (providers ! i)
        \<and> ((\<exists>err. Get (URL (providers ! i)) = Inl err)
              \<longrightarrow> Speed (fst (TestProviders Get providers reqs) ! i) = 0)
        \<and> (\<forall>t. Get (URL (providers ! i)) = Inr t \<longrightarrow> bytes_read t = 0
              \<longrightarrow> Speed (fst (TestProviders Get providers reqs) ! i) = 0))"
  by (auto simp: TestProviders_eq annotated_def measured_rate_eq)

theorem C4_witness:
  "map Speed (fst (TestProviders get0
      [cand ''A'' ''https://a/s.tar'', cand ''B'' ''https://b/s.tar'',
       cand ''F'' ''https://f/s.tar''] [])) = [2, 0, 0]
   \<and> map Name (fst (TestProviders get0
      [cand ''A'' ''https://a/s.tar'', cand ''B'' ''https://b/s.tar'',
       cand ''F'' ''https://f/s.tar''] [])) = [''A'', ''B'', ''F'']"
proof -
  let ?ps = "[cand ''A'' ''https://a/s.tar'', cand ''B'' ''https://b/s.tar'',
              cand ''F'' ''https://f/s.tar'']"
  have ev: "fst (TestProviders get0 ?ps []) =
      [(cand ''A'' ''https://a/s.tar'')\<lparr>Speed := 2, DownloadTime := maxSentinel\<rparr>,
       (cand ''B'' ''https://b/s.tar'')\<lparr>Speed := 0, DownloadTime := maxSentinel\<rparr>,
       (cand ''F'' ''https://f/s.tar'')\<lparr>Speed := 0, DownloadTime := maxSentinel\<rparr>]"
    by (simp add: TestProviders_def TestProviders_task_def testSpeed_def get0_def cand_def
          transferA_def transferF_def testDuration_def Seconds_def)
  have len: "length (fst (TestProviders get0 ?ps [])) = length ?ps"
    using C4_TestProviders_keeps_all [of get0 ?ps "[]"] by blast
  from len ev show ?thesis by (simp add: cand_def)
qed

text \<open>
  Claim C6, as the code has it. For every candidate after throughput probing exactly one
  of two cases holds: the rate and the declared size are both positive and the
  estimated time is the size divided by the rate in bytes per second; or the rate is 0
  or the size is not positive (0, or negative) and the estimated time is the sentinel.
  The rate is never negative.
\<close>

theorem C6_TestProviders_estimate:
  "q \<in> set (fst (TestProviders Get providers reqs)) \<Longrightarrow>
     (time_from_rate q \<or> time_is_sentinel q)
   \<and> \<not> (time_from_rate q \<and> time_is_sentinel q)
   \<and> 0 \<le> Speed q"
proof -
  assume "q \<in> set (fst (TestProviders Get providers reqs))"
  then obtain p where q: "q = annotated Get p"
    by (auto simp: TestProviders_eq)
  have nn: "0 \<le> measured_rate Get (URL p)"
    by (rule measured_rate_nonneg)
  show ?thesis
    using nn by (auto simp: q annotated_def time_from_rate_def time_is_sentinel_def)
qed

theorem C6_witness:
  "time_from_rate \<lparr>Name = ''A'', URL = ''https://a/s.tar'', MetadataURL = [], Speed = 2,
                    Size = 1024, DownloadTime = 1024 / 2000000\<rparr>
   \<and> fst (TestProviders get0 (fst (CheckHealth head0 [cand ''A'' ''https://a/s.tar''] [])) [])
       = [\<lparr>Name = ''A'', URL = ''https://a/s.tar'', MetadataURL = [], Speed = 2,
            Size = 1024, DownloadTime = 1024 / 2000000\<rparr>]"
proof -
  let ?q = "\<lparr>Name = ''A'', URL = ''https://a/s.tar'', MetadataURL = [], Speed = 2,
              Size = 1024, DownloadTime = 1024 / 2000000\<rparr>"
  have ev: "fst (TestProviders get0 (fst (CheckHealth head0 [cand ''A'' ''https://a/s.tar''] [])) [])
      = [?q]"
    by (simp add: TestProviders_def TestProviders_task_def testSpeed_def CheckHealth_def
          isHealthy_def get0_def head0_def cand_def transferA_def testDuration_def Seconds_def
          StatusOK_def Header_Get_def ParseInt_def isDigit_def decimal_def digitVal_def)
  have mem: "?q \<in> set (fst (TestProviders get0
      (fst (CheckHealth head0 [cand ''A'' ''https://a/s.tar''] [])) []))"
    by (simp add: ev)
  have ns: "\<not> time_is_sentinel ?q"
    by (simp add: time_is_sentinel_def)
  from C6_TestProviders_estimate [OF mem] ns ev show ?thesis by blast
qed

text \<open>
  The claim C6 as the specification states it fails where the declared size is
  negative: the candidate \<open>E\<close>, whose size header is -5, passes the health probe with size
  -5, the speed test measures 2 megabytes per second, and the estimated time is the
  sentinel although neither the rate nor the size is 0. Neither of the two cases of
  the claim holds. (Read without the conditions in the brackets, as two equations of
  which exactly one holds, the claim fails as well: the candidate \<open>H\<close> declares
  9223372036854775807 bytes and is measured at one byte per second, so its estimated
  time is the size divided by the rate and also the sentinel.)
\<close>

theorem C6_counterexample:
  "fst (TestProviders get0 (fst (CheckHealth head0 [cand ''E'' ''https://e/s.tar''] [])) [])
     = [\<lparr>Name = ''E'', URL = ''https://e/s.tar'', MetadataURL = [], Speed = 2,
          Size = - 5, DownloadTime = maxSentinel\<rparr>]
   \<and> \<not> time_from_rate \<lparr>Name = ''E'', URL = ''https://e/s.tar'', MetadataURL = [], Speed = 2,
          Size = - 5, DownloadTime = maxSentinel\<rparr>
   \<and> \<not> time_is_sentinel_as_claimed \<lparr>Name = ''E'', URL = ''https://e/s.tar'', MetadataURL = [],
          Speed = 2, Size = - 5, DownloadTime = maxSentinel\<rparr>
   \<and> fst (TestProviders get0 (fst (CheckHealth head0 [cand ''H'' ''https://h/s.tar''] [])) [])
     = [\<lparr>Name = ''H'', URL = ''https://h/s.tar'', MetadataURL = [], Speed = 1 / 1000000,
          Size = 9223372036854775807, DownloadTime = maxSentinel\<rparr>]
   \<and> maxSentinel = real_of_int 9223372036854775807 / (1 / 1000000 * 1000 * 1000)"
  by (simp add: TestProviders_def TestProviders_task_def testSpeed_def CheckHealth_def
        isHealthy_def get0_def head0_def cand_def transferA_def transferOne_def
        testDuration_def Seconds_def maxSentinel_def
        StatusOK_def Header_Get_def ParseInt_def isDigit_def decimal_def digitVal_def
        time_from_rate_def time_is_sentinel_as_claimed_def)

subsection \<open>The frame of the throughput prober\<close>

lemma mem_set_fresh:
  "mem_set (m @ [a]) (fresh_slice m n) i v = m @ [a[i := v]]"
  by (simp add: mem_set_def fresh_slice_def list_update_append)

lemma mem_get_fresh: "mem_get (m @ [a]) (fresh_slice m n) i = a ! i"
  by (simp add: mem_get_def fresh_slice_def)

lemma mem_get_old: "arr s < length m \<Longrightarrow> mem_get (m @ [a]) s i = mem_get m s i"
  by (simp add: mem_get_def nth_append)

lemma copy_fold:
  assumes "arr s < length m" "length a = n"
  shows "k \<le> n \<Longrightarrow>
    fold (\<lambda>i m'. mem_set m' (fresh_slice m n) i (mem_get m' s i)) [0..<k] (m @ [a])
      = m @ [map (mem_get m s) [0..<k] @ drop k a]"
proof (induction k)
  case 0
  then show ?case by simp
next
  case (Suc k)
  then have k: "k < length a" using assms(2) by simp
  have "(map (mem_get m s) [0..<k] @ drop k a)[k := mem_get m s k]
      = map (mem_get m s) [0..<k] @ mem_get m s k # drop (Suc k) a"
    using k by (simp add: list_update_append Cons_nth_drop_Suc [symmetric])
  then show ?case
    using Suc assms(1) by (simp add: mem_set_fresh mem_get_old)
qed

lemma copy_slice_fresh:
  assumes "arr s < length m"
  shows "copy_slice (fresh_slice m (len s)) s (m @ [replicate (len s) zeroInfo])
      = m @ [slice_contents m s]"
  using copy_fold [OF assms, of "replicate (len s) zeroInfo" "len s" "len s"]
  by (simp add: copy_slice_def slice_contents_def fresh_slice_def)

lemma mem_task_fresh:
  "TestProviders_mem_task Get (fresh_slice m n) idx (m @ [a])
     = m @ [a[idx := annotated Get (a ! idx)]]" if "idx < length a"
  using that
  by (simp add: TestProviders_mem_task_def mem_set_fresh mem_get_fresh annotated_def
        measured_rate_def Let_def)

lemma mem_tasks_fold:
  "k \<le> length a \<Longrightarrow>
   fold (TestProviders_mem_task Get (fresh_slice m n)) [0..<k] (m @ [a])
     = m @ [map (annotated Get) (take k a) @ drop k a]"
proof (induction k)
  case 0
  then show ?case by simp
next
  case (Suc k)
  then have k: "k < length a" by simp
  have nth: "(map (annotated Get) (take k a) @ drop k a) ! k = a ! k"
    using k by (simp add: nth_append)
  have upd: "(map (annotated Get) (take k a) @ drop k a)[k := annotated Get (a ! k)]
      = map (annotated Get) (take (Suc k) a) @ drop (Suc k) a"
    using k by (simp add: take_Suc_conv_app_nth list_update_append Cons_nth_drop_Suc [symmetric])
  show ?case
    using Suc k nth upd by (simp add: mem_task_fresh)
qed

lemma TestProviders_mem_eq:
  assumes "arr s < length m"
  shows "TestProviders_mem Get s m
     = (fresh_slice m (len s), m @ [map (annotated Get) (slice_contents m s)])"
proof -
  have mk: "make_slice m (len s) = (fresh_slice m (len s), m @ [replicate (len s) zeroInfo])"
    by (simp add: make_slice_def fresh_slice_def)
  have ln: "len (fresh_slice m (len s)) = length (slice_contents m s)"
    by (simp add: fresh_slice_def slice_contents_def)
  show ?thesis
    using mem_tasks_fold [of "length (slice_contents m s)" "slice_contents m s" Get m "len s"]
    by (simp add: TestProviders_mem_def mk copy_slice_fresh [OF assms] ln)
qed

lemma slice_contents_fresh:
  "length a = n \<Longrightarrow> slice_contents (m @ [a]) (fresh_slice m n) = a"
proof -
  assume n: "length a = n"
  have "map (mem_get (m @ [a]) (fresh_slice m n)) [0..<n] = map ((!) a) [0..<n]"
    by (simp add: mem_get_fresh)
  also have "\<dots> = a"
    using n map_nth [of a] by simp
  finally show ?thesis
    by (simp add: slice_contents_def fresh_slice_def)
qed

lemma slice_contents_old:
  "arr s < length m \<Longrightarrow> slice_contents (m @ [a]) s = slice_contents m s"
  by (simp add: slice_contents_def mem_get_old)

text \<open>
  Claim C10. Run on a memory \<open>m\<close> with a valid argument slice, \<open>TestProviders\<close> leaves
  every array that existed unchanged, so the argument reads as before; the slice it
  returns is a new array of the argument's length; at each index the element returned
  has the \<^verbatim>\<open>Name\<close>, \<^verbatim>\<open>URL\<close>, \<^verbatim>\<open>MetadataURL\<close> and \<^verbatim>\<open>Size\<close> of the argument's element at
  that index. The contents returned are those of the function on lists.
\<close>

theorem C10_TestProviders_frame:
  assumes "valid_slice m providers"
  shows "(case TestProviders_mem Get providers m of
            (result, m') \<Rightarrow>
               take (length m) m' = m
             \<and> slice_contents m' providers = slice_contents m providers
             \<and> arr result = length m
             \<and> len result = len providers
             \<and> slice_contents m' result = fst (TestProviders Get (slice_contents m providers) reqs)
             \<and> (\<forall>i < len providers.
                   Name (mem_get m' result i) = Name (mem_get m providers i)
                 \<and> URL (mem_get m' result i) = URL (mem_get m providers i)
                 \<and> MetadataURL (mem_get m' result i) = MetadataURL (mem_get m providers i)
                 \<and> Size (mem_get m' result i) = Size (mem_get m providers i)))"
proof -
  have a: "arr providers < length m"
    using assms by (simp add: valid_slice_def)
  have c: "slice_contents (m @ [map (annotated Get) (slice_contents m providers)])
             (fresh_slice m (len providers)) = map (annotated Get) (slice_contents m providers)"
    by (rule slice_contents_fresh) (simp add: slice_contents_def)
  have g: "mem_get (m @ [map (annotated Get) (slice_contents m providers)])
             (fresh_slice m (len providers)) i = annotated Get (mem_get m providers i)"
    if "i < len providers" for i
    using that by (simp add: mem_get_fresh slice_contents_def)
  show ?thesis
    using a c g
    by (simp add: TestProviders_mem_eq slice_contents_old TestProviders_eq annotated_def
          fresh_slice_def)
qed

theorem C10_witness:
  "valid_slice [[cand ''X'' ''https://x/s.tar'', cand ''A'' ''https://a/s.tar'',
                 cand ''B'' ''https://b/s.tar'']] \<lparr>arr = 0, off = 1, len = 2\<rparr>
   \<and> TestProviders_mem get0 \<lparr>arr = 0, off = 1, len = 2\<rparr>
        [[cand ''X'' ''https://x/s.tar'', cand ''A'' ''https://a/s.tar'',
          cand ''B'' ''https://b/s.tar'']]
      = (\<lparr>arr = 1, off = 0, len = 2\<rparr>,
         [[cand ''X'' ''https://x/s.tar'', cand ''A'' ''https://a/s.tar'',
           cand ''B'' ''https://b/s.tar''],
          [(cand ''A'' ''https://a/s.tar'')\<lparr>Speed := 2, DownloadTime := maxSentinel\<rparr>,
           (cand ''B'' ''https://b/s.tar'')\<lparr>Speed := 0, DownloadTime := maxSentinel\<rparr>]])"
proof -
  let ?m = "[[cand ''X'' ''https://x/s.tar'', cand ''A'' ''https://a/s.tar'',
              cand ''B'' ''https://b/s.tar'']]"
  let ?s = "\<lparr>arr = 0, off = 1, len = 2\<rparr>"
  have v: "valid_slice ?m ?s"
    by (simp add: valid_slice_def)
  have ev: "TestProviders_mem get0 ?s ?m
      = (\<lparr>arr = 1, off = 0, len = 2\<rparr>,
         [[cand ''X'' ''https://x/s.tar'', cand ''A'' ''https://a/s.tar'',
           cand ''B'' ''https://b/s.tar''],
          [(cand ''A'' ''https://a/s.tar'')\<lparr>Speed := 2, DownloadTime := maxSentinel\<rparr>,
           (cand ''B'' ''https://b/s.tar'')\<lparr>Speed := 0, DownloadTime := maxSentinel\<rparr>]])"
    by (simp add: TestProviders_mem_def TestProviders_mem_task_def make_slice_def
          fresh_slice_def copy_slice_def mem_get_def mem_set_def testSpeed_def get0_def cand_def zeroInfo_def
          transferA_def testDuration_def Seconds_def numeral_2_eq_2)
  from C10_TestProviders_frame [OF v, of get0 "[]"] v ev show ?thesis by simp
qed

section \<open>Properties of the selector\<close>

lemma select_loop_sound:
  assumes "select_loop scanf n k c0 = Some r"
  shows "\<not> (0 < c0 \<and> c0 \<le> int n) \<longrightarrow> chosen_ok scanf n k r"
proof (rule select_loop.raw_induct
    [where P = "\<lambda>scanf n k c0 r. \<not> (0 < c0 \<and> c0 \<le> int n) \<longrightarrow> chosen_ok scanf n k r",
     OF _ assms])
  fix loop :: "(nat \<Rightarrow> int option) \<Rightarrow> nat \<Rightarrow> nat \<Rightarrow> int \<Rightarrow> (int \<times> nat) option"
    and scanf n k choice r
  assume IH: "\<And>scanf n k choice r. loop scanf n k choice = Some r \<Longrightarrow>
      \<not> (0 < choice \<and> choice \<le> int n) \<longrightarrow> chosen_ok scanf n k r"
  assume body: "(let choice = (case scanf k of None \<Rightarrow> choice | Some v \<Rightarrow> v)
      in if 0 < choice \<and> choice \<le> int n then Some (choice, Suc k)
         else loop scanf n (Suc k) choice) = Some r"
  define c where "c = (case scanf k of None \<Rightarrow> choice | Some v \<Rightarrow> v)"
  from body have eq:
    "(if 0 < c \<and> c \<le> int n then Some (c, Suc k) else loop scanf n (Suc k) c) = Some r"
    unfolding c_def Let_def .
  show "\<not> (0 < choice \<and> choice \<le> int n) \<longrightarrow> chosen_ok scanf n k r"
  proof
    assume inv: "\<not> (0 < choice \<and> choice \<le> int n)"
    show "chosen_ok scanf n k r"
    proof (cases "0 < c \<and> c \<le> int n")
      case True
      with eq have r: "r = (c, Suc k)"
        by simp
      from True inv have "scanf k = Some c"
        by (auto simp: c_def split: option.splits)
      with True r show ?thesis by (auto simp: chosen_ok_def)
    next
      case False
      with eq have "loop scanf n (Suc k) c = Some r"
        by simp
      from IH [OF this] False
      have ih: "chosen_ok scanf n (Suc k) r"
        by blast
      have here: "invalid_input n (scanf k)"
        using False by (auto simp: invalid_input_def c_def split: option.splits)
      have "invalid_input n (scanf j)" if "k \<le> j" "j < snd r - 1" for j
      proof (cases "j = k")
        case True
        with here show ?thesis by simp
      next
        case False
        with that have "Suc k \<le> j" by simp
        with ih that show ?thesis by (simp add: chosen_ok_def)
      qed
      with ih show ?thesis by (auto simp: chosen_ok_def)
    qed
  qed
qed

lemma select_loop_returns:
  "\<not> (0 < c0 \<and> c0 \<le> int n) \<Longrightarrow> scanf (k + d) = Some c \<Longrightarrow> 0 < c \<Longrightarrow> c \<le> int n \<Longrightarrow>
   (\<forall>j < d. invalid_input n (scanf (k + j))) \<Longrightarrow>
   select_loop scanf n k c0 = Some (c, Suc (k + d))"
proof (induction d arbitrary: k c0)
  case 0
  then show ?case
    by (subst select_loop.simps) simp
next
  case (Suc d)
  define c1 where "c1 = (case scanf k of None \<Rightarrow> c0 | Some v \<Rightarrow> v)"
  from Suc.prems(5) have "invalid_input n (scanf (k + 0))" by blast
  with Suc.prems(1) have c1: "\<not> (0 < c1 \<and> c1 \<le> int n)"
    by (auto simp: invalid_input_def c1_def split: option.splits)
  have later: "\<forall>j < d. invalid_input n (scanf (Suc k + j))"
    using Suc.prems(5) by (metis Suc_less_eq add_Suc_right add_Suc)
  have "select_loop scanf n (Suc k) c1 = Some (c, Suc (Suc k + d))"
    using Suc.IH [OF c1 _ Suc.prems(3,4) later] Suc.prems(2) by simp
  with c1 show ?case
    by (subst select_loop.simps) (simp add: c1_def Let_def)
qed

lemma select_loop_diverges:
  assumes "\<not> (0 < c0 \<and> c0 \<le> int n)" "\<forall>j \<ge> k. invalid_input n (scanf j)"
  shows "select_loop scanf n k c0 = None"
proof (rule ccontr)
  assume "select_loop scanf n k c0 \<noteq> None"
  then obtain r where r: "select_loop scanf n k c0 = Some r" by auto
  from select_loop_sound [OF r] assms(1)
  have s: "0 < fst r" "fst r \<le> int n" "k < snd r" "scanf (snd r - 1) = Some (fst r)"
    by (auto simp: chosen_ok_def)
  from s(3) assms(2) have "invalid_input n (scanf (snd r - 1))" by simp
  with s show False by (simp add: invalid_input_def)
qed


lemma index_at_valid:
  "0 < c \<Longrightarrow> c \<le> int (length providers) \<Longrightarrow>
     index_at providers (c - 1) = Inr (providers ! nat (c - 1)) \<and> nat (c - 1) < length providers"
  by (auto simp: index_at_def)

text \<open>
  Claim C8. In manual mode with at least two ranked candidates, the selection either
  never returns, which happens exactly when no input is ever a valid choice (the prompt
  is repeated for ever), or it returns the candidate at the 1-based index \<open>c\<close>, where \<open>c\<close>
  is the first valid input: an integer from 1 to N. Every input before it, whether not a
  number or out of range, led to one more prompt and nothing else. The index is in
  range, so the selection never panics.
\<close>

theorem C8_manual_selection:
  assumes "2 \<le> length providers"
  shows "(case selectProvider True scanf providers of
            None \<Rightarrow> \<forall>k. invalid_input (length providers) (scanf k)
          | Some r \<Rightarrow>
              \<exists>k c. scanf k = Some c \<and> 0 < c \<and> c \<le> int (length providers)
                \<and> (\<forall>j < k. invalid_input (length providers) (scanf j))
                \<and> select_loop scanf (length providers) 0 0 = Some (c, Suc k)
                \<and> nat (c - 1) < length providers
                \<and> r = Inr (providers ! nat (c - 1)))"
proof (cases "select_loop scanf (length providers) 0 0")
  case None
  have "invalid_input (length providers) (scanf k)" for k
  proof (rule ccontr)
    assume "\<not> invalid_input (length providers) (scanf k)"
    then have ex: "\<exists>k. \<not> invalid_input (length providers) (scanf k)" by blast
    define d where "d = (LEAST k. \<not> invalid_input (length providers) (scanf k))"
    have d: "\<not> invalid_input (length providers) (scanf d)"
      unfolding d_def using ex by (rule LeastI_ex)
    have before: "\<forall>j < d. invalid_input (length providers) (scanf (0 + j))"
      unfolding d_def using not_less_Least by fastforce
    from d obtain c where c: "scanf (0 + d) = Some c" "0 < c" "c \<le> int (length providers)"
      by (auto simp: invalid_input_def split: option.splits)
    have "select_loop scanf (length providers) 0 0 = Some (c, Suc (0 + d))"
      by (rule select_loop_returns [OF _ c before]) simp
    with None show False by simp
  qed
  with None assms show ?thesis
    by (auto simp: selectProvider_def)
next
  case (Some r)
  obtain c k' where r: "r = (c, k')" by (cases r)
  from select_loop_sound [OF Some] have ok: "chosen_ok scanf (length providers) 0 (c, k')"
    by (simp add: r)
  then have k': "0 < k'" and c: "0 < c" "c \<le> int (length providers)"
    and sc: "scanf (k' - 1) = Some c"
    and inv: "\<forall>j < k' - 1. invalid_input (length providers) (scanf j)"
    by (simp_all add: chosen_ok_def)
  from k' have suc: "Suc (k' - 1) = k'" by simp
  have sel: "selectProvider True scanf providers = Some (index_at providers (c - 1))"
    using assms Some by (auto simp: selectProvider_def r)
  from index_at_valid [OF c] sc c inv Some r suc sel show ?thesis
    by auto
qed

theorem C8_witness:
  "2 \<le> length [rated ''A'' 2, rated ''G'' 1, rated ''B'' 0]
   \<and> script0 0 = None \<and> script0 1 = Some 7 \<and> script0 2 = Some 0 \<and> script0 3 = Some 2
   \<and> select_loop script0 3 0 0 = Some (2, 4)
   \<and> selectProvider True script0 [rated ''A'' 2, rated ''G'' 1, rated ''B'' 0]
       = Some (Inr (rated ''G'' 1))"
proof -
  have len: "2 \<le> length [rated ''A'' 2, rated ''G'' 1, rated ''B'' 0]"
    by simp
  have sl: "select_loop script0 3 0 0 = Some (2, 4)"
    apply (subst select_loop.simps, simp add: script0_def)
    apply (subst select_loop.simps, simp add: script0_def)
    apply (subst select_loop.simps, simp add: script0_def)
    apply (subst select_loop.simps, simp add: script0_def)
    done
  have sel: "selectProvider True script0 [rated ''A'' 2, rated ''G'' 1, rated ''B'' 0]
      = Some (Inr (rated ''G'' 1))"
    using sl by (simp add: selectProvider_def index_at_def numeral_3_eq_3)
  from C8_manual_selection [OF len, of script0] len sl sel show ?thesis
    by (simp add: script0_def)
qed




lemma mset_insert_sorted: "mset (insert_sorted lessf x ys) = add_mset x (mset ys)"
  by (induction ys) auto

lemma mset_insertion_sort_acc: "mset (insertion_sort_acc lessf xs acc) = mset xs + mset acc"
  by (induction xs arbitrary: acc) (auto simp: mset_insert_sorted)

lemma set_insert_sorted: "set (insert_sorted lessf x ys) = insert x (set ys)"
  by (induction ys) auto

lemma sorted_insert_sorted:
  "sorted_wrt (\<lambda>a b. \<not> faster b a) ys \<Longrightarrow> sorted_wrt (\<lambda>a b. \<not> faster b a) (insert_sorted faster x ys)"
  by (induction ys) (auto simp: set_insert_sorted faster_def)

lemma sorted_insertion_sort_acc:
  "sorted_wrt (\<lambda>a b. \<not> faster b a) acc \<Longrightarrow>
     sorted_wrt (\<lambda>a b. \<not> faster b a) (insertion_sort_acc faster xs acc)"
  by (induction xs arbitrary: acc) (auto simp: sorted_insert_sorted)

lemma insertion_sorter_ok: "sort_Slice_ok insertion_sorter faster"
  by (simp add: sort_Slice_ok_def sort_Slice_post_def insertion_sorter_def
        mset_insertion_sort_acc sorted_insertion_sort_acc)



section \<open>Properties of the run\<close>

text \<open>
  Claim C9. An empty candidate set ends the run with an error, and no later stage runs.
  When the filter returns nothing, \<open>runRoot\<close> returns the error that no snapshots were
  found and has issued no request: the health prober was not invoked. When the filter
  returns candidates and none of them is healthy, \<open>runRoot\<close> returns the error that no
  healthy snapshots were found, and the requests issued are the health probes, one
  \<^verbatim>\<open>HEAD\<close> per candidate, and nothing else: no speed test, no selection, no download.
  The selection itself returns an error on an empty list.
\<close>

theorem C9_empty_stage_is_fatal:
  "selectProvider manual scanf [] = Some (Inl NoSnapshotsAvailable)
   \<and> (validateArgs arg0 arg1 = Inr (nodeType, snapshotType) \<longrightarrow> fetched e = Inr cfg \<longrightarrow>
        (FilterProviders (Providers cfg) nodeType snapshotType (flag_chainID e) = [] \<longrightarrow>
           runRoot e arg0 arg1 = Some ([], Inl (NoSnapshotsFound nodeType snapshotType)))
      \<and> (FilterProviders (Providers cfg) nodeType snapshotType (flag_chainID e) \<noteq> [] \<longrightarrow>
         fst (CheckHealth (client_Head e)
                (FilterProviders (Providers cfg) nodeType snapshotType (flag_chainID e)) []) = [] \<longrightarrow>
           runRoot e arg0 arg1 =
             Some (map (\<lambda>p. HEAD (URL p))
                     (FilterProviders (Providers cfg) nodeType snapshotType (flag_chainID e)),
                   Inl NoHealthySnapshots)))"
  by (auto simp: selectProvider_def runRoot_def CheckHealth_eq)

theorem C9_witness:
  "runRoot env0 ''c'' ''a'' = Some ([], Inl (NoSnapshotsFound ''consensus'' ''archive''))
   \<and> runRoot env0 ''b'' ''p''
       = Some ([HEAD ''https://b/s.tar'', HEAD ''https://d/s.tar''], Inl NoHealthySnapshots)
   \<and> FilterProviders catalog0 ''bridge'' ''pruned'' ''celestia''
       = [cand ''B'' ''https://b/s.tar'', cand ''D'' ''https://d/s.tar'']"
proof -
  have v1: "validateArgs ''c'' ''a'' = Inr (''consensus'', ''archive'')"
    by (simp add: validateArgs_def nodeTypeMap_def snapshotTypeMap_def)
  have v2: "validateArgs ''b'' ''p'' = Inr (''bridge'', ''pruned'')"
    by (simp add: validateArgs_def nodeTypeMap_def snapshotTypeMap_def)
  have f: "fetched env0 = Inr \<lparr>Providers = catalog0\<rparr>"
    and c: "flag_chainID env0 = ''celestia''" and h: "client_Head env0 = head0"
    by (simp_all add: env0_def)
  have f1: "FilterProviders catalog0 ''consensus'' ''archive'' ''celestia'' = []"
    by (simp add: FilterProviders_def catalog0_def snap_def)
  have f2: "FilterProviders catalog0 ''bridge'' ''pruned'' ''celestia''
       = [cand ''B'' ''https://b/s.tar'', cand ''D'' ''https://d/s.tar'']"
    by (simp add: FilterProviders_def catalog0_def snap_def cand_def zeroInfo_def)
  have h2: "fst (CheckHealth head0 [cand ''B'' ''https://b/s.tar'', cand ''D'' ''https://d/s.tar''] [])
       = []"
    by (simp add: CheckHealth_def isHealthy_def head0_def cand_def StatusOK_def)
  from C9_empty_stage_is_fatal [of False script0 "''c''" "''a''" "''consensus''" "''archive''"
      env0 "\<lparr>Providers = catalog0\<rparr>"] v1 f c f1
  have 1: "runRoot env0 ''c'' ''a'' = Some ([], Inl (NoSnapshotsFound ''consensus'' ''archive''))"
    by simp
  from C9_empty_stage_is_fatal [of False script0 "''b''" "''p''" "''bridge''" "''pruned''"
      env0 "\<lparr>Providers = catalog0\<rparr>"] v2 f c h f2 h2
  have 2: "runRoot env0 ''b'' ''p''
       = Some ([HEAD ''https://b/s.tar'', HEAD ''https://d/s.tar''], Inl NoHealthySnapshots)"
    by (simp add: cand_def)
  from 1 2 f2 show ?thesis by simp
qed

text \<open>
  The first end-to-end scenario of the specification, run: three providers offer
  \<^verbatim>\<open>consensus-pruned\<close> for \<^verbatim>\<open>celestia\<close>, \<open>B\<close> fails the health check, \<open>A\<close> is measured at 2
  megabytes per second and \<open>G\<close> at less, and the automatic selection downloads from \<open>A\<close>.
\<close>

lemma runRoot_env0_automatic:
  "runRoot env0 ''c'' ''p'' =
     Some ([HEAD ''https://a/s.tar'', HEAD ''https://b/s.tar'', HEAD ''https://g/s.tar'',
            GET ''https://a/s.tar'', GET ''https://g/s.tar'',
            DOWNLOAD ''https://a/s.tar'' ''/home/u/celestia-snapshots''],
           Inr \<lparr>ResultPath = ''/home/u/celestia-snapshots/s.tar'', ResultSize = 1024\<rparr>)"
  by (simp add: runRoot_def validateArgs_def nodeTypeMap_def snapshotTypeMap_def env0_def
        FilterProviders_def catalog0_def snap_def CheckHealth_def isHealthy_def head0_def
        zeroInfo_def StatusOK_def Header_Get_def ParseInt_def isDigit_def decimal_def
        digitVal_def TestProviders_def TestProviders_task_def testSpeed_def get0_def
        transferA_def transferG_def testDuration_def Seconds_def insertion_sorter_def
        faster_def selectProvider_def index_at_def numeral_2_eq_2)

end
